theory Spec2Isabelle
  imports Complex_Main "HOL-Library.Word" "HOL-Library.Signed_Division"
begin

unbundle bit_operations_syntax

section \<open>Basic types\<close>

text \<open>
  Go's \<open>int64\<close> and \<open>uint64\<close> are 64-bit words: \<open>+\<close>, \<open>-\<close> and \<open>*\<close> wrap,
  \<open>sint\<close> reads a word as a signed and \<open>unat\<close> as an unsigned number.
  A \<open>time.Duration\<close> is an \<open>int64\<close> count of nanoseconds. A wall-clock reading
  (\<open>time.Now().UnixNano()\<close>) is an \<open>int64\<close> as well; every function that reads the
  clock takes the reading as its first argument.

  A value of Go's type \<open>any\<close> is \<open>None\<close> for \<open>nil\<close> and \<open>Some v\<close> otherwise; an
  \<open>error\<close> is its message, and a possibly-\<open>nil\<close> error is an \<open>error option\<close>.
\<close>

type_synonym int64 = "64 word"
type_synonym uint64 = "64 word"
type_synonym Duration = "64 word"
type_synonym 'v any = "'v option"
type_synonym error = string

text \<open>A call either returns or panics; a panic carries its message.\<close>

datatype 'a outcome = Panic string | Return 'a

section \<open>Cache entry (package backends)\<close>

record 'v CacheEntry =
  Value :: "'v any"
  expiry :: int64
  version :: uint64

text \<open>
  \<open>NewEntry(v, ttl, ver)\<close>. The expiry \<open>time.Now().Add(ttl).UnixNano()\<close> is the clock
  reading plus the ttl in \<open>int64\<close> arithmetic.
\<close>

definition NewEntry :: "int64 \<Rightarrow> 'v any \<Rightarrow> Duration \<Rightarrow> uint64 \<Rightarrow> 'v CacheEntry" where
  "NewEntry now v ttl ver =
     (let exp = (if 0 < sint ttl then now + ttl else 0)
      in \<lparr>Value = v, expiry = exp, version = ver\<rparr>)"

definition IsExpired :: "int64 \<Rightarrow> 'v CacheEntry \<Rightarrow> bool" where
  "IsExpired now e =
     (let exp = expiry e
      in if exp = 0 then False else sint exp < sint now)"

definition TTLRemaining :: "int64 \<Rightarrow> 'v CacheEntry \<Rightarrow> Duration" where
  "TTLRemaining now e =
     (let exp = expiry e
      in if exp = 0 then 0
         else let rem = exp - now
              in if sint rem \<le> 0 then 0 else rem)"

definition SetExpiry :: "int64 \<Rightarrow> 'v CacheEntry \<Rightarrow> Duration \<Rightarrow> 'v CacheEntry" where
  "SetExpiry now e ttl =
     (let exp = (if 0 < sint ttl then now + ttl else 0)
      in e\<lparr>expiry := exp\<rparr>)"

definition Version :: "'v CacheEntry \<Rightarrow> uint64" where
  "Version e = version e"

text \<open>\<open>BumpVersion\<close> returns the new version and the entry it has updated.\<close>

definition BumpVersion :: "'v CacheEntry \<Rightarrow> uint64 \<times> 'v CacheEntry" where
  "BumpVersion e = (version e + 1, e\<lparr>version := version e + 1\<rparr>)"

section \<open>In-memory backend (package memory)\<close>

record 'v Memory =
  entries :: "string \<rightharpoonup> 'v CacheEntry"

text \<open>\<open>New()\<close>: an empty map (the sweeping goroutine is not part of the value).\<close>

definition Memory_New :: "'v Memory" where
  "Memory_New = \<lparr>entries = Map.empty\<rparr>"

definition Memory_Get :: "int64 \<Rightarrow> 'v Memory \<Rightarrow> string \<Rightarrow> ('v any \<times> bool) \<times> 'v Memory" where
  "Memory_Get now m key =
     (case entries m key of
        None \<Rightarrow> ((None, False), m)
      | Some entry \<Rightarrow>
          if IsExpired now entry
          then ((None, False), m\<lparr>entries := (entries m)(key := None)\<rparr>)
          else ((Value entry, True), m))"

text \<open>
  \<open>Set\<close> declares a fresh local \<open>var entry backends.CacheEntry\<close> (all fields zero),
  bumps the version of that local, and stores \<open>NewEntry(value, ttl, <bumped>)\<close>.
\<close>

definition zero_entry :: "'v CacheEntry" where
  "zero_entry = \<lparr>Value = None, expiry = 0, version = 0\<rparr>"

definition Memory_Set :: "int64 \<Rightarrow> 'v Memory \<Rightarrow> string \<Rightarrow> 'v any \<Rightarrow> Duration \<Rightarrow> 'v Memory" where
  "Memory_Set now m key v ttl =
     (let entry0 = (zero_entry :: 'v CacheEntry);
          (ver, entry1) = BumpVersion entry0;
          entry = NewEntry now v ttl ver
      in m\<lparr>entries := (entries m)(key \<mapsto> entry)\<rparr>)"

definition Memory_Delete :: "'v Memory \<Rightarrow> string \<Rightarrow> 'v Memory" where
  "Memory_Delete m key = m\<lparr>entries := (entries m)(key := None)\<rparr>"

definition Memory_Clear :: "'v Memory \<Rightarrow> 'v Memory" where
  "Memory_Clear m = m\<lparr>entries := Map.empty\<rparr>"

section \<open>Backend registry (package backends)\<close>

text \<open>
  A \<open>BackendFactory\<close> is a \<open>func() Backend\<close>: calling it returns a backend value (an
  interface, possibly \<open>nil\<close>) or panics. The process-wide \<open>registry\<close> map is passed
  in and returned. A \<open>nil\<close> factory argument is \<open>None\<close>.
\<close>

type_synonym 'b BackendFactory = "unit \<Rightarrow> 'b any outcome"
type_synonym 'b registry = "string \<rightharpoonup> 'b BackendFactory"

definition RegisterBackend ::
  "'b registry \<Rightarrow> string \<Rightarrow> 'b BackendFactory option \<Rightarrow> 'b registry outcome" where
  "RegisterBackend registry name factory =
     (case factory of
        None \<Rightarrow> Panic ''backend factory cannot be nil''
      | Some f \<Rightarrow>
          (case registry name of
             Some _ \<Rightarrow> Panic (''backend factory already registered: '' @ name)
           | None \<Rightarrow> Return (registry(name \<mapsto> f))))"

definition NewBackend ::
  "'b registry \<Rightarrow> string \<Rightarrow> ('b any \<times> error option) outcome" where
  "NewBackend registry backendType =
     (case registry backendType of
        None \<Rightarrow> Return (None, Some (''unknown backend type: '' @ backendType))
      | Some factory \<Rightarrow>
          (case factory () of
             Panic p \<Rightarrow> Panic p
           | Return b \<Rightarrow> Return (b, None)))"

definition BackendExists :: "'b registry \<Rightarrow> string \<Rightarrow> bool" where
  "BackendExists registry name = (registry name \<noteq> None)"

section \<open>Metrics (package memo)\<close>

record Metrics =
  Enabled :: bool
  Hits :: uint64
  Misses :: uint64
  Evictions :: uint64
  Requests :: uint64
  totalLatency :: uint64
  countLatency :: uint64
  minLatency :: int64
  maxLatency :: int64
  lastLatency :: int64

text \<open>
  A \<open>float64\<close> result is either a finite number, an infinity or not-a-number. The
  conversions \<open>float64(n)\<close> of the counters and the quotient are taken exactly (without
  rounding to 53 bits); what the model keeps of IEEE arithmetic is what a zero
  denominator gives.
\<close>

datatype float64 = Finite real | PosInf | NaN

definition float64_of_uint64 :: "uint64 \<Rightarrow> real" where
  "float64_of_uint64 n = real (unat n)"

definition float64_div :: "real \<Rightarrow> real \<Rightarrow> float64" where
  "float64_div a b = (if b = 0 then (if a = 0 then NaN else PosInf) else Finite (a / b))"

text \<open>\<open>time.Microsecond\<close> and \<open>time.Hour\<close>, in nanoseconds.\<close>

definition Microsecond :: Duration where
  "Microsecond = 1000"

definition Hour :: Duration where
  "Hour = 3600000000000"

text \<open>\<open>Duration.Microseconds()\<close>: \<open>int64(d) / 1e3\<close>, Go's division truncating towards zero.\<close>

definition Microseconds :: "Duration \<Rightarrow> int64" where
  "Microseconds d = word_of_int (sint d sdiv 1000)"

definition NewMetrics :: "bool \<Rightarrow> Metrics" where
  "NewMetrics enabled =
     (let m = \<lparr>Enabled = enabled, Hits = 0, Misses = 0, Evictions = 0, Requests = 0,
               totalLatency = 0, countLatency = 0, minLatency = 0, maxLatency = 0,
               lastLatency = 0\<rparr>
      in if enabled then m\<lparr>minLatency := drop_bit 1 (NOT (0 :: uint64))\<rparr> else m)"

definition RecordHit :: "Metrics \<Rightarrow> Metrics" where
  "RecordHit m =
     (if \<not> Enabled m then m
      else m\<lparr>Hits := Hits m + 1, Requests := Requests m + 1\<rparr>)"

definition RecordMiss :: "Metrics \<Rightarrow> Metrics" where
  "RecordMiss m =
     (if \<not> Enabled m then m
      else m\<lparr>Misses := Misses m + 1, Requests := Requests m + 1\<rparr>)"

definition RecordEviction :: "Metrics \<Rightarrow> Metrics" where
  "RecordEviction m =
     (if \<not> Enabled m then m
      else m\<lparr>Evictions := Evictions m + 1\<rparr>)"

text \<open>
  \<open>RecordLatency\<close>. Each compare-and-swap loop, run by one goroutine alone, ends in its
  first round: either the sample does not improve on the stored extreme, or the swap
  succeeds.
\<close>

definition RecordLatency :: "Metrics \<Rightarrow> Duration \<Rightarrow> Metrics" where
  "RecordLatency m duration =
     (if \<not> Enabled m then m
      else
        let microseconds = Microseconds duration;
            m1 = m\<lparr>lastLatency := microseconds,
                    totalLatency := totalLatency m + microseconds,
                    countLatency := countLatency m + 1\<rparr>;
            oldMin = minLatency m1;
            m2 = (if sint oldMin \<le> sint microseconds then m1
                  else m1\<lparr>minLatency := microseconds\<rparr>);
            oldMax = maxLatency m2
        in if sint microseconds \<le> sint oldMax then m2
           else m2\<lparr>maxLatency := microseconds\<rparr>)"

definition Snapshot :: "Metrics \<Rightarrow> Metrics" where
  "Snapshot m =
     \<lparr>Enabled = Enabled m, Hits = Hits m, Misses = Misses m, Evictions = Evictions m,
      Requests = Requests m, totalLatency = totalLatency m, countLatency = countLatency m,
      minLatency = minLatency m, maxLatency = maxLatency m, lastLatency = lastLatency m\<rparr>"

definition HitRatio :: "Metrics \<Rightarrow> float64" where
  "HitRatio m =
     (if \<not> Enabled m then Finite 0
      else
        let total = Requests m
        in if total = 0 then Finite 0
           else let hits = Hits m
                in float64_div (float64_of_uint64 hits) (float64_of_uint64 total))"

definition AvgLatency :: "Metrics \<Rightarrow> float64" where
  "AvgLatency m =
     (let count = countLatency m
      in if count = 0 then Finite 0
         else let total = totalLatency m
              in float64_div (float64_of_uint64 total) (float64_of_uint64 count))"

definition MinLatency :: "Metrics \<Rightarrow> Duration" where
  "MinLatency m =
     (let microseconds = minLatency m
      in if sint microseconds < 0 then 0
         else microseconds * Microsecond)"

definition MaxLatency :: "Metrics \<Rightarrow> Duration" where
  "MaxLatency m = maxLatency m * Microsecond"

definition LastLatency :: "Metrics \<Rightarrow> Duration" where
  "LastLatency m = lastLatency m * Microsecond"

section \<open>Options and construction (package memo)\<close>

text \<open>
  The \<open>Backend\<close> field is an interface value: \<open>None\<close> is \<open>nil\<close>. The memoizer is
  modelled over the in-memory backend, the implementation \<open>DefaultOptions\<close> installs.
  \<open>KeyFunc\<close> is a function value of some type \<open>'k\<close>, \<open>None\<close> for \<open>nil\<close>; the default
  one, \<open>hashutil.HashArgs\<close>, is passed to \<open>DefaultOptions\<close>.
\<close>

record ('v, 'k) Options =
  TTL :: Duration
  KeyFunc :: "'k option"
  CacheOnCancel :: bool
  CleanupInterval :: Duration
  Backend :: "'v Memory option"
  MetricsEnabled :: bool

text \<open>An \<open>Option\<close> is a \<open>func(*Options)\<close>: it returns the options it has updated.\<close>

type_synonym ('v, 'k) Option = "('v, 'k) Options \<Rightarrow> ('v, 'k) Options"

definition DefaultOptions :: "'k \<Rightarrow> ('v, 'k) Options" where
  "DefaultOptions hashArgs =
     \<lparr>TTL = Hour,
      KeyFunc = Some hashArgs,
      CacheOnCancel = False,
      CleanupInterval = Hour,
      Backend = Some Memory_New,
      MetricsEnabled = False\<rparr>"

definition WithTTL :: "Duration \<Rightarrow> ('v, 'k) Option" where
  "WithTTL ttl = (\<lambda>opt. opt\<lparr>TTL := ttl\<rparr>)"

definition WithKeyFunc :: "'k option \<Rightarrow> ('v, 'k) Option" where
  "WithKeyFunc fn = (\<lambda>opt. opt\<lparr>KeyFunc := fn\<rparr>)"

definition WithBackend :: "'v Memory option \<Rightarrow> ('v, 'k) Option" where
  "WithBackend b = (\<lambda>opt. opt\<lparr>Backend := b\<rparr>)"

definition WithCleanupInterval :: "Duration \<Rightarrow> ('v, 'k) Option" where
  "WithCleanupInterval d = (\<lambda>opt. opt\<lparr>CleanupInterval := d\<rparr>)"

definition WithCacheOnCancel :: "bool \<Rightarrow> ('v, 'k) Option" where
  "WithCacheOnCancel enabled = (\<lambda>opt. opt\<lparr>CacheOnCancel := enabled\<rparr>)"

definition WithMetrics :: "bool \<Rightarrow> ('v, 'k) Option" where
  "WithMetrics enabled = (\<lambda>opt. opt\<lparr>MetricsEnabled := enabled\<rparr>)"

definition Validate :: "('v, 'k) Options \<Rightarrow> error option" where
  "Validate opt =
     (if Backend opt = None then Some ''backend cannot be nil''
      else if sint (TTL opt) \<le> 0 then Some ''TTL must be positive''
      else None)"

section \<open>Single flight (package memo)\<close>

text \<open>A \<open>call\<close>: the wait-group counter and the result slot. The counter is only ever
  decremented by the \<open>Done\<close> that follows the \<open>Add(1)\<close> of the same call.\<close>

record 'v call =
  call_wg :: nat
  call_val :: "'v any"
  call_err :: "error option"

record 'v SingleFlight =
  sf_m :: "string \<rightharpoonup> 'v call"

definition NewSingleFlight :: "'v SingleFlight" where
  "NewSingleFlight = \<lparr>sf_m = Map.empty\<rparr>"

text \<open>
  \<open>Do\<close>, run by one goroutine with no other goroutine running. \<open>fn\<close> works on a
  state \<open>'s\<close>. When the key has a call in flight the caller blocks on it: the result
  is \<open>Join c\<close>, and what the caller returns once it is woken is given by the
  interleaving model below. Otherwise the caller owns the call: it registers it, runs
  \<open>fn\<close>, stores the result, releases the wait group and removes the call.
\<close>

datatype 'v Do_result = Done "'v any" "error option" bool | Join "'v call"

definition Do ::
  "'v SingleFlight \<Rightarrow> string \<Rightarrow> ('s \<Rightarrow> ('v any \<times> error option) \<times> 's) \<Rightarrow> 's
     \<Rightarrow> 'v Do_result \<times> 'v SingleFlight \<times> 's" where
  "Do g key fn s =
     (case sf_m g key of
        Some c \<Rightarrow> (Join c, g, s)
      | None \<Rightarrow>
          let c0 = \<lparr>call_wg = 0, call_val = None, call_err = None\<rparr>;
              c1 = c0\<lparr>call_wg := call_wg c0 + 1\<rparr>;
              g1 = g\<lparr>sf_m := (sf_m g)(key \<mapsto> c1)\<rparr>;
              ((v, e), s') = fn s;
              c2 = c1\<lparr>call_val := v, call_err := e\<rparr>;
              c3 = c2\<lparr>call_wg := call_wg c2 - 1\<rparr>;
              g2 = g1\<lparr>sf_m := (sf_m g1)(key := None)\<rparr>
          in (Done (call_val c3) (call_err c3) True, g2, s'))"

section \<open>Memoizer (package memo)\<close>

record ('v, 'k) Memoizer =
  backend :: "'v Memory"
  opts :: "('v, 'k) Options"
  group :: "'v SingleFlight"
  metrics :: Metrics

text \<open>
  \<open>New\<close>: the options are applied in order to \<open>DefaultOptions()\<close>; an invalid result
  panics with the validation error. \<open>the\<close> reads a backend that \<open>Validate\<close> has found
  not to be \<open>nil\<close>.
\<close>

definition New :: "'k \<Rightarrow> ('v, 'k) Option list \<Rightarrow> ('v, 'k) Memoizer outcome" where
  "New hashArgs options =
     (let cfg = foldl (\<lambda>c f. f c) (DefaultOptions hashArgs) options
      in case Validate cfg of
           Some e \<Rightarrow> Panic e
         | None \<Rightarrow>
             Return \<lparr>backend = the (Backend cfg),
                     opts = cfg,
                     group = NewSingleFlight,
                     metrics = NewMetrics (MetricsEnabled cfg)\<rparr>)"

text \<open>
  The clock readings of one \<open>Get\<close>: at the first lookup, at the second lookup inside the
  single flight, at the store, and the \<open>time.Since(start)\<close> measured at the end.
\<close>

record Get_clock =
  at_lookup :: int64
  at_recheck :: int64
  at_store :: int64
  elapsed :: Duration

text \<open>
  The computation \<open>fn\<close> of a caller works on the caller's own state \<open>'w\<close> ("the
  world"): running it returns a value and an error and may change the world.
  \<open>Get_compute\<close> is the function literal that \<open>Get\<close> hands to \<open>Do\<close>: it works on the
  backend, the metrics and the world.
\<close>

type_synonym ('v, 'w) computation = "'w \<Rightarrow> ('v any \<times> error option) \<times> 'w"

definition Get_compute ::
  "Get_clock \<Rightarrow> Duration \<Rightarrow> string \<Rightarrow> ('v, 'w) computation
     \<Rightarrow> ('v Memory \<times> Metrics \<times> 'w) \<Rightarrow> ('v any \<times> error option) \<times> ('v Memory \<times> Metrics \<times> 'w)" where
  "Get_compute clk ttl key fn s =
     (case s of (b, mt, w) \<Rightarrow>
        (case Memory_Get (at_recheck clk) b key of
           ((v, ok), b1) \<Rightarrow>
             if ok then ((v, None), (b1, RecordHit mt, w))
             else
               (case fn w of
                  ((result, e), w1) \<Rightarrow>
                    (case e of
                       Some er \<Rightarrow> ((None, Some er), (b1, mt, w1))
                     | None \<Rightarrow>
                         ((result, None),
                          (Memory_Set (at_store clk) b1 key result ttl, mt, w1))))))"

datatype 'v Get_result = Got "'v any" "error option" | Blocked "'v call"

definition Memoizer_Get ::
  "Get_clock \<Rightarrow> ('v, 'k) Memoizer \<Rightarrow> string \<Rightarrow> ('v, 'w) computation \<Rightarrow> 'w
     \<Rightarrow> 'v Get_result \<times> ('v, 'k) Memoizer \<times> 'w" where
  "Memoizer_Get clk m key fn w =
     (case Memory_Get (at_lookup clk) (backend m) key of
        ((v, ok), b1) \<Rightarrow>
          if ok then (Got v None, m\<lparr>backend := b1, metrics := RecordHit (metrics m)\<rparr>, w)
          else
            let mt1 = RecordMiss (metrics m)
            in (case Do (group m) key (Get_compute clk (TTL (opts m)) key fn) (b1, mt1, w) of
                  (Done v e owner, g1, (b2, mt2, w1)) \<Rightarrow>
                    (Got v e,
                     m\<lparr>backend := b2, group := g1,
                       metrics := RecordLatency mt2 (elapsed clk)\<rparr>, w1)
                | (Join c, g1, (b2, mt2, w1)) \<Rightarrow>
                    (Blocked c, m\<lparr>backend := b2, group := g1, metrics := mt2\<rparr>, w1)))"

definition Memoizer_Delete :: "('v, 'k) Memoizer \<Rightarrow> string \<Rightarrow> ('v, 'k) Memoizer" where
  "Memoizer_Delete m key = m\<lparr>backend := Memory_Delete (backend m) key\<rparr>"

definition Memoizer_Clear :: "('v, 'k) Memoizer \<Rightarrow> ('v, 'k) Memoizer" where
  "Memoizer_Clear m = m\<lparr>backend := Memory_Clear (backend m)\<rparr>"

section \<open>Sequences of recording calls\<close>

text \<open>
  The four recording operations as data, so that a property can speak of every sequence
  of calls made on a collector.
\<close>

datatype recording = CallRecordHit | CallRecordMiss | CallRecordEviction | CallRecordLatency Duration

fun record_call :: "Metrics \<Rightarrow> recording \<Rightarrow> Metrics" where
  "record_call m CallRecordHit = RecordHit m"
| "record_call m CallRecordMiss = RecordMiss m"
| "record_call m CallRecordEviction = RecordEviction m"
| "record_call m (CallRecordLatency d) = RecordLatency m d"

definition record_calls :: "Metrics \<Rightarrow> recording list \<Rightarrow> Metrics" where
  "record_calls m cs = foldl record_call m cs"

section \<open>Concurrent callers of Memoizer.Get\<close>

text \<open>
  Goroutines are numbered; goroutine \<open>i\<close> runs one \<open>m.Get(ctx, key, fn)\<close>, all on the same
  memoizer, key and computation. A goroutine is at one of the following places of
  \<open>Get\<close> and of the \<open>Do\<close> it calls, about to take the step named there. Each step is one
  critical section, one backend call, one atomic update or one run of the computation.
  A goroutine allocates at most one \<open>call\<close>; the call of goroutine \<open>j\<close> is named by \<open>j\<close>.
\<close>

datatype 'v pc =
    AtLookup
  | AtDo
  | AtWait nat
  | AtRecheck
  | AtCompute
  | AtStore "'v any"
  | AtPublish "'v any" "error option"
  | AtCleanup
  | AtLatency "'v any" "error option"
  | Returned "'v any" "error option"

record ('v, 'w) system =
  sys_backend :: "'v Memory"
  sys_metrics :: Metrics
  sys_group :: "string \<rightharpoonup> nat"
  sys_calls :: "nat \<Rightarrow> 'v call"
  sys_pcs :: "nat \<Rightarrow> 'v pc"
  sys_world :: 'w
  sys_runs :: nat









text \<open>Whether goroutine \<open>i\<close> can take a step, and whether it has returned.\<close>

definition enabled :: "('v, 'w) system \<Rightarrow> nat \<Rightarrow> bool" where
  "enabled s i =
     (case sys_pcs s i of
        AtWait j \<Rightarrow> call_wg (sys_calls s j) = 0
      | Returned v e \<Rightarrow> False
      | _ \<Rightarrow> True)"


section \<open>The invariant of the interleaving model\<close>

text \<open>
  Classes of places: the goroutine whose call is registered under the key
  (\<open>owner_pc\<close>), before and after it has published its result, the places that can be
  reached before the computation has run (\<open>early\<close>), and the values a place carries.
  \<open>fresh hi e\<close>: the entry is not expired at any clock reading up to \<open>hi\<close>.
  \<open>inv key hi r w0\<close> holds in every state reached from an initial state with world
  \<open>w0\<close> in which the computation returns \<open>r\<close> without error.
\<close>

fun owner_pc :: "'v pc \<Rightarrow> bool" where
  "owner_pc AtRecheck = True"
| "owner_pc AtCompute = True"
| "owner_pc (AtStore r) = True"
| "owner_pc (AtPublish v e) = True"
| "owner_pc AtCleanup = True"
| "owner_pc _ = False"

fun unpublished :: "'v pc \<Rightarrow> bool" where
  "unpublished AtRecheck = True"
| "unpublished AtCompute = True"
| "unpublished (AtStore r) = True"
| "unpublished (AtPublish v e) = True"
| "unpublished _ = False"









section \<open>Example inputs\<close>

text \<open>The factory that package memory registers in its \<open>init\<close>: \<open>func() Backend { return New() }\<close>.\<close>

definition memory_factory :: "'v Memory BackendFactory" where
  "memory_factory u = Return (Some Memory_New)"

text \<open>Computations over a world that counts their runs: two that succeed and one that fails
  (returning a value along with its error).\<close>

definition answer :: "(nat, nat) computation" where
  "answer w = ((Some 42, None), Suc w)"

definition other_answer :: "(nat, nat) computation" where
  "other_answer w = ((Some 7, None), Suc w)"

definition failing :: "(nat, nat) computation" where
  "failing w = ((Some 13, Some ''boom''), Suc w)"

text \<open>A memoizer with a TTL of 10 ns over an empty backend, and one whose backend holds
  an entry for \<open>''k''\<close> that expired at time 5.\<close>

definition empty_memoizer :: "(nat, unit) Memoizer" where
  "empty_memoizer =
     \<lparr>backend = Memory_New,
      opts = (DefaultOptions ())\<lparr>TTL := 10\<rparr>,
      group = NewSingleFlight,
      metrics = NewMetrics True\<rparr>"

definition stale_memoizer :: "(nat, unit) Memoizer" where
  "stale_memoizer =
     empty_memoizer\<lparr>backend :=
       \<lparr>entries = [''k'' \<mapsto> \<lparr>Value = Some 1, expiry = 5, version = 1\<rparr>]\<rparr>\<rparr>"

definition first_clock :: Get_clock where
  "first_clock = \<lparr>at_lookup = 100, at_recheck = 101, at_store = 102, elapsed = 3000\<rparr>"

definition second_clock :: Get_clock where
  "second_clock = \<lparr>at_lookup = 105, at_recheck = 106, at_store = 107, elapsed = 2000\<rparr>"

text \<open>The empty memoizer after \<open>Get\<close> has computed and stored \<open>answer\<close> at time 102.\<close>

definition warm_memoizer :: "(nat, unit) Memoizer" where
  "warm_memoizer =
     empty_memoizer\<lparr>backend := Memory_Set 102 Memory_New ''k'' (Some 42) 10,
       group := NewSingleFlight,
       metrics := RecordLatency (RecordMiss (NewMetrics True)) 3000\<rparr>"

text \<open>
  The empty memoizer after two calls of \<open>Get\<close> for the same key, the second with the
  memoizer and the world that the first has left.
\<close>

definition after_two_Gets :: "(nat, unit) Memoizer" where
  "after_two_Gets =
     fst (snd (Memoizer_Get second_clock
       (fst (snd (Memoizer_Get first_clock empty_memoizer ''k'' answer 0))) ''k'' other_answer
       (snd (snd (Memoizer_Get first_clock empty_memoizer ''k'' answer 0)))))"




section \<open>Cache entry: expiry and version\<close>

text \<open>
  Claim C7. An entry created with a ttl that is not positive has the expiry 0, the
  "no expiration" value, and is expired at no clock reading. \<open>SetExpiry\<close> with a ttl
  that is not positive on an entry that has expired sets the expiry to 0, and the entry
  is expired at no clock reading afterwards. For an entry whose expiry is not 0,
  \<open>IsExpired\<close> is exactly "the clock reading is greater than the expiry".
\<close>

theorem entry_expiry_rules:
  "(sint ttl \<le> 0 \<longrightarrow>
      expiry (NewEntry now v ttl ver) = 0 \<and> (\<forall>t. \<not> IsExpired t (NewEntry now v ttl ver)))
   \<and> (IsExpired t0 e \<and> sint ttl \<le> 0 \<longrightarrow>
      expiry (SetExpiry now e ttl) = 0 \<and> (\<forall>t. \<not> IsExpired t (SetExpiry now e ttl)))
   \<and> (expiry e \<noteq> 0 \<longrightarrow> IsExpired t e = (sint (expiry e) < sint t))"
  by (simp add: NewEntry_def IsExpired_def SetExpiry_def)

theorem entry_expiry_rules_witness:
  "sint (0 :: Duration) \<le> 0
   \<and> IsExpired 10 \<lparr>Value = Some (1 :: nat), expiry = 5, version = 0\<rparr>
   \<and> expiry \<lparr>Value = Some (1 :: nat), expiry = 5, version = 0\<rparr> \<noteq> 0
   \<and> expiry (NewEntry 7 (Some (1 :: nat)) 0 3) = 0
   \<and> \<not> IsExpired 99 (NewEntry 7 (Some (1 :: nat)) 0 3)
   \<and> \<not> IsExpired 99 (SetExpiry 7 \<lparr>Value = Some (1 :: nat), expiry = 5, version = 0\<rparr> 0)
   \<and> IsExpired 10 \<lparr>Value = Some (1 :: nat), expiry = 5, version = 0\<rparr> = (sint (5 :: int64) < sint (10 :: int64))"
  using entry_expiry_rules [where ttl = 0 and now = 7 and v = "Some (1 :: nat)" and ver = 3
      and ?t0.0 = 10 and e = "\<lparr>Value = Some (1 :: nat), expiry = 5, version = 0\<rparr>"
      and t = 10]
  by (simp add: IsExpired_def)

text \<open>
  Claim C4 says that every \<open>Set\<close> to a key stores a version strictly greater than the
  version it overwrites. \<open>Memory.Set\<close> bumps the version of a fresh local entry, not of
  the stored one: the entry it stores has version 1 whatever the key held before, so a
  second \<open>Set\<close> to the same key overwrites version 1 with version 1.
\<close>

theorem Memory_Set_version_is_one:
  "map_option version (entries (Memory_Set t1 m key v1 ttl1) key) = Some 1
   \<and> map_option version (entries (Memory_Set t2 (Memory_Set t1 m key v1 ttl1) key v2 ttl2) key) = Some 1"
  by (simp add: Memory_Set_def BumpVersion_def zero_entry_def NewEntry_def)

section \<open>Metrics\<close>

lemma record_call_disabled: "\<not> Enabled m \<Longrightarrow> record_call m c = m"
  by (cases c) (simp_all add: RecordHit_def RecordMiss_def RecordEviction_def RecordLatency_def)

lemma record_calls_disabled: "\<not> Enabled m \<Longrightarrow> record_calls m cs = m"
  unfolding record_calls_def
  by (induction cs arbitrary: m) (simp_all add: record_call_disabled)

lemma minLatency_NewMetrics_enabled:
  "minLatency (NewMetrics True) = 9223372036854775807"
  by (simp add: NewMetrics_def mask_eq_exp_minus_1)

text \<open>
  Claim C10 says that \<open>MinLatency()\<close> of a fresh enabled collector is the initial
  maximal \<open>int64\<close> count of microseconds, a huge positive duration. The field does hold
  \<open>2^63 - 1\<close>, but \<open>MinLatency\<close> multiplies it by \<open>time.Microsecond\<close> (1000) in
  \<open>int64\<close> arithmetic, which wraps: the duration returned is \<open>-1000\<close> nanoseconds. A
  fresh disabled collector returns 0.
\<close>

theorem MinLatency_fresh:
  "minLatency (NewMetrics True) = 9223372036854775807
   \<and> MinLatency (NewMetrics True) = - 1000
   \<and> sint (MinLatency (NewMetrics True)) = - 1000
   \<and> MinLatency (NewMetrics False) = 0"
proof -
  have "MinLatency (NewMetrics True) = - 1000"
    unfolding MinLatency_def minLatency_NewMetrics_enabled Microsecond_def
    by simp
  moreover have "MinLatency (NewMetrics False) = 0"
    by (simp add: MinLatency_def NewMetrics_def)
  ultimately show ?thesis
    by (simp add: minLatency_NewMetrics_enabled)
qed

section \<open>Backend registry\<close>

text \<open>
  Claim C8. \<open>RegisterBackend\<close> panics when the factory is \<open>nil\<close> and when the name is
  already registered. \<open>NewBackend\<close> with a name that is not registered returns (does not
  panic) with a \<open>nil\<close> backend and the error "unknown backend type: <name>"; with a
  registered name whose factory returns, it returns the factory's backend and a \<open>nil\<close>
  error, also right after the registration.
\<close>

theorem registry_rules:
  "RegisterBackend registry name None = Panic ''backend factory cannot be nil''
   \<and> (registry name \<noteq> None \<longrightarrow>
        RegisterBackend registry name (Some f) = Panic (''backend factory already registered: '' @ name))
   \<and> (registry name = None \<longrightarrow>
        NewBackend registry name = Return (None, Some (''unknown backend type: '' @ name)))
   \<and> (registry name = Some factory \<and> factory () = Return b \<longrightarrow>
        NewBackend registry name = Return (b, None))
   \<and> (registry name = None \<and> f () = Return b \<longrightarrow>
        (\<exists>registry'. RegisterBackend registry name (Some f) = Return registry'
           \<and> NewBackend registry' name = Return (b, None)))"
  by (auto simp: RegisterBackend_def NewBackend_def)

theorem registry_rules_witness:
  "RegisterBackend (Map.empty(''memory'' \<mapsto> (memory_factory :: nat Memory BackendFactory))) ''memory'' None
     = Panic ''backend factory cannot be nil''
   \<and> RegisterBackend (Map.empty(''memory'' \<mapsto> (memory_factory :: nat Memory BackendFactory))) ''memory''
        (Some memory_factory)
     = Panic ''backend factory already registered: memory''
   \<and> NewBackend (Map.empty :: nat Memory registry) ''redis''
     = Return (None, Some ''unknown backend type: redis'')
   \<and> NewBackend (Map.empty(''memory'' \<mapsto> (memory_factory :: nat Memory BackendFactory))) ''memory''
     = Return (Some Memory_New, None)
   \<and> (\<exists>registry'. RegisterBackend (Map.empty :: nat Memory registry) ''memory''
          (Some memory_factory) = Return registry'
        \<and> NewBackend registry' ''memory'' = Return (Some Memory_New, None))"
  using registry_rules [where registry = "Map.empty(''memory'' \<mapsto> (memory_factory :: nat Memory BackendFactory))"
      and name = "''memory''" and f = memory_factory
      and factory = memory_factory and b = "Some Memory_New"]
    registry_rules [where registry = "Map.empty :: nat Memory registry"
      and name = "''redis''"]
    registry_rules [where registry = "Map.empty :: nat Memory registry"
      and name = "''memory''" and f = memory_factory and b = "Some Memory_New"]
  by (simp add: memory_factory_def)

section \<open>Construction\<close>

lemma Validate_None_iff:
  "Validate cfg = None \<longleftrightarrow> Backend cfg \<noteq> None \<and> 0 < sint (TTL cfg)"
  by (auto simp: Validate_def)

lemma New_cases:
  "New h options =
     (case Validate (foldl (\<lambda>c f. f c) (DefaultOptions h) options) of
        Some e \<Rightarrow> Panic e
      | None \<Rightarrow> Return \<lparr>backend = the (Backend (foldl (\<lambda>c f. f c) (DefaultOptions h) options)),
                        opts = foldl (\<lambda>c f. f c) (DefaultOptions h) options,
                        group = NewSingleFlight,
                        metrics = NewMetrics (MetricsEnabled (foldl (\<lambda>c f. f c) (DefaultOptions h) options))\<rparr>)"
  by (simp add: New_def Let_def)

text \<open>
  Claim C5 says that construction never proceeds on defaults put in for a missing
  backend or TTL. \<open>New\<close> starts from \<open>DefaultOptions()\<close>: called with no option at all,
  so that the caller gives neither a backend nor a TTL, it returns a memoizer over the
  default in-memory backend with the default TTL of one hour.
\<close>

theorem construction_without_options_uses_defaults:
  "(New () [] :: (nat, unit) Memoizer outcome)
     = Return \<lparr>backend = Memory_New, opts = DefaultOptions (), group = NewSingleFlight,
                metrics = NewMetrics False\<rparr>
   \<and> Backend (DefaultOptions () :: (nat, unit) Options) = Some Memory_New
   \<and> TTL (DefaultOptions () :: (nat, unit) Options) = Hour"
  by (simp add: New_cases Validate_def DefaultOptions_def Hour_def)

text \<open>
  Claim C5, amended. \<open>Validate\<close> reports a \<open>nil\<close> backend, and then a TTL that is not
  positive. \<open>New\<close> validates the configuration it gets by applying the options to
  \<open>DefaultOptions()\<close> and panics with the validation error: with "backend cannot be
  nil" when the configured backend is \<open>nil\<close>, with "TTL must be positive" when the
  backend is there and the TTL is not positive. When \<open>New\<close> returns, the memoizer has
  the backend and the options as configured, with a positive TTL. A \<open>nil\<close> backend or
  a TTL that is not positive, given as the last option, makes \<open>New\<close> panic whatever
  the options before it: no default replaces it. With no option, \<open>New\<close> returns a
  memoizer with the default options.
\<close>

theorem construction_validates:
  "(Validate cfg = Some ''backend cannot be nil'' \<longleftrightarrow> Backend cfg = None)
   \<and> (Backend cfg \<noteq> None \<longrightarrow>
        (Validate cfg = Some ''TTL must be positive'' \<longleftrightarrow> sint (TTL cfg) \<le> 0))
   \<and> (Backend (foldl (\<lambda>c f. f c) (DefaultOptions h) options) = None
        \<longrightarrow> New h options = Panic ''backend cannot be nil'')
   \<and> (Backend (foldl (\<lambda>c f. f c) (DefaultOptions h) options) \<noteq> None
        \<and> sint (TTL (foldl (\<lambda>c f. f c) (DefaultOptions h) options)) \<le> 0
        \<longrightarrow> New h options = Panic ''TTL must be positive'')
   \<and> (\<forall>m. New h options = Return m \<longrightarrow>
          Backend (foldl (\<lambda>c f. f c) (DefaultOptions h) options) = Some (backend m)
          \<and> opts m = foldl (\<lambda>c f. f c) (DefaultOptions h) options
          \<and> 0 < sint (TTL (opts m)))
   \<and> New h (options @ [WithBackend None]) = Panic ''backend cannot be nil''
   \<and> (sint ttl \<le> 0 \<longrightarrow> (\<exists>e. New h (options @ [WithTTL ttl]) = Panic e))
   \<and> (\<exists>m. New h [] = Return m \<and> opts m = DefaultOptions h)"
  by (auto simp: New_cases Validate_def WithBackend_def WithTTL_def DefaultOptions_def Hour_def
      split: option.splits if_splits)

theorem construction_validates_witness:
  "Validate ((DefaultOptions () :: (nat, unit) Options)\<lparr>Backend := None\<rparr>) = Some ''backend cannot be nil''
   \<and> Validate ((DefaultOptions () :: (nat, unit) Options)\<lparr>TTL := 0\<rparr>) = Some ''TTL must be positive''
   \<and> (New () [WithBackend None] :: (nat, unit) Memoizer outcome) = Panic ''backend cannot be nil''
   \<and> (New () [WithTTL 0] :: (nat, unit) Memoizer outcome) = Panic ''TTL must be positive''
   \<and> (New () [WithTTL 5] :: (nat, unit) Memoizer outcome)
       = Return \<lparr>backend = Memory_New, opts = (DefaultOptions ())\<lparr>TTL := 5\<rparr>,
                 group = NewSingleFlight, metrics = NewMetrics False\<rparr>
   \<and> 0 < sint (TTL ((DefaultOptions () :: (nat, unit) Options)\<lparr>TTL := 5\<rparr>))
   \<and> sint (- 1 :: Duration) \<le> 0
   \<and> (New () [WithMetrics True, WithTTL (- 1)] :: (nat, unit) Memoizer outcome) = Panic ''TTL must be positive''"
  using construction_validates [where cfg = "(DefaultOptions () :: (nat, unit) Options)\<lparr>Backend := None\<rparr>"
      and h = "()" and options = "[WithBackend None] :: (nat, unit) Option list" and ttl = 0]
    construction_validates [where cfg = "(DefaultOptions () :: (nat, unit) Options)\<lparr>TTL := 0\<rparr>"
      and h = "()" and options = "[WithTTL 0] :: (nat, unit) Option list" and ttl = 0]
    construction_validates [where cfg = "(DefaultOptions () :: (nat, unit) Options)"
      and h = "()" and options = "[WithTTL 5] :: (nat, unit) Option list" and ttl = 0]
    construction_validates [where cfg = "(DefaultOptions () :: (nat, unit) Options)"
      and h = "()" and options = "[WithMetrics True] :: (nat, unit) Option list" and ttl = "- 1"]
  by (simp add: New_cases DefaultOptions_def WithTTL_def WithBackend_def WithMetrics_def Validate_def Hour_def)

section \<open>Memoizer.Get, run by one goroutine\<close>


lemma Memory_Get_absent:
  "entries b key = None \<Longrightarrow> Memory_Get t b key = ((None, False), b)"
  by (simp add: Memory_Get_def)

lemma Memory_Get_cases:
  "Memory_Get t b key = ((v, ok), b1) \<Longrightarrow>
     (ok \<and> b1 = b \<and> (\<exists>e. entries b key = Some e \<and> \<not> IsExpired t e \<and> v = Value e))
     \<or> (\<not> ok \<and> v = None \<and> entries b1 key = None \<and> b1 = b\<lparr>entries := (entries b)(key := None)\<rparr>)"
  by (auto simp: Memory_Get_def fun_upd_idem split: option.splits if_splits)


lemma Memoizer_Get_hit:
  "Memory_Get (at_lookup clk) (backend m) key = ((v, True), b1) \<Longrightarrow>
     Memoizer_Get clk m key fn w = (Got v None, m\<lparr>backend := b1, metrics := RecordHit (metrics m)\<rparr>, w)"
  by (simp add: Memoizer_Get_def)




lemma Memoizer_Get_computes:
  assumes "entries (backend m) key = None" "sf_m (group m) key = None"
    and "f w0 = ((v, None), w1)"
  shows "Memoizer_Get clk m key f w0 =
     (Got v None,
      m\<lparr>backend := Memory_Set (at_store clk) (backend m) key v (TTL (opts m)),
        group := group m,
        metrics := RecordLatency (RecordMiss (metrics m)) (elapsed clk)\<rparr>, w1)"
proof -
  have "(sf_m (group m))(key := None) = sf_m (group m)"
    using assms(2) by (simp add: fun_upd_idem)
  then show ?thesis
    using assms
    by (simp add: Memoizer_Get_def Memory_Get_absent Do_def Get_compute_def Let_def)
qed

lemma Memoizer_Get_fails:
  assumes "snd (fst (Memory_Get (at_lookup clk) (backend m) key)) = False"
    and "sf_m (group m) key = None"
    and "fn w = ((r, Some er), w1)"
  shows "Memoizer_Get clk m key fn w =
     (Got None (Some er),
      m\<lparr>backend := snd (Memory_Get (at_lookup clk) (backend m) key),
        group := group m,
        metrics := RecordLatency (RecordMiss (metrics m)) (elapsed clk)\<rparr>, w1)"
proof -
  obtain v0 ok b1 where g: "Memory_Get (at_lookup clk) (backend m) key = ((v0, ok), b1)"
    by (metis surj_pair)
  with assms(1) have nok: "\<not> ok" by simp
  with Memory_Get_cases [OF g] have abs: "entries b1 key = None" by simp
  have "(sf_m (group m))(key := None) = sf_m (group m)"
    using assms(2) by (simp add: fun_upd_idem)
  then show ?thesis
    using assms(2,3) g nok abs
    by (simp add: Memoizer_Get_def Memory_Get_absent Do_def Get_compute_def Let_def)
qed

lemma first_Get_warm:
  "Memoizer_Get first_clock empty_memoizer ''k'' answer 0 = (Got (Some 42) None, warm_memoizer, 1)"
  using Memoizer_Get_computes [of empty_memoizer "''k''" answer 0 "Some 42" 1 first_clock]
  by (simp add: empty_memoizer_def Memory_New_def NewSingleFlight_def answer_def first_clock_def
      DefaultOptions_def warm_memoizer_def)

lemma warm_entry:
  "entries (backend warm_memoizer) ''k'' = Some \<lparr>Value = Some 42, expiry = 112, version = 1\<rparr>"
  by (simp add: warm_memoizer_def Memory_Set_def BumpVersion_def zero_entry_def NewEntry_def)

lemma second_Get_warm:
  "Memoizer_Get second_clock warm_memoizer ''k'' other_answer 1
     = (Got (Some 42) None, warm_memoizer\<lparr>metrics := RecordHit (metrics warm_memoizer)\<rparr>, 1)"
  using Memoizer_Get_hit [of second_clock warm_memoizer "''k''" "Some 42" "backend warm_memoizer"
      other_answer 1]
  by (simp add: Memory_Get_def warm_entry IsExpired_def second_clock_def)

lemma two_Gets_metrics:
  "metrics after_two_Gets = RecordHit (RecordLatency (RecordMiss (NewMetrics True)) 3000)"
  unfolding after_two_Gets_def
  by (simp only: first_Get_warm second_Get_warm fst_conv snd_conv) (simp add: warm_memoizer_def)

lemma two_Gets_counters:
  "Requests (RecordHit (RecordLatency (RecordMiss (NewMetrics True)) 3000)) = 2
   \<and> Hits (RecordHit (RecordLatency (RecordMiss (NewMetrics True)) 3000)) = 1
   \<and> Misses (RecordHit (RecordLatency (RecordMiss (NewMetrics True)) 3000)) = 1
   \<and> HitRatio (RecordHit (RecordLatency (RecordMiss (NewMetrics True)) 3000)) = Finite 0.5"
  by (simp add: RecordHit_def RecordMiss_def RecordLatency_def NewMetrics_def Let_def HitRatio_def
      float64_div_def float64_of_uint64_def)

text \<open>
  Claim C6. On an enabled collector one \<open>RecordMiss\<close> followed by one \<open>RecordHit\<close>
  gives \<open>Requests = 2\<close>, \<open>Hits = 1\<close>, \<open>Misses = 1\<close> and a hit ratio of 0.5. On a
  disabled collector every sequence of recording calls leaves the collector as
  \<open>NewMetrics(false)\<close> made it: every counter is 0, and \<open>HitRatio\<close> and \<open>AvgLatency\<close>
  are the finite number 0 (not the not-a-number that a quotient of zeros would be).
  The same counts result from two calls of \<open>Get\<close> on a memoizer with metrics enabled,
  the first a miss that computes and the second a hit.
\<close>

theorem metrics_accounting:
  "Requests (RecordHit (RecordMiss (NewMetrics True))) = 2
   \<and> Hits (RecordHit (RecordMiss (NewMetrics True))) = 1
   \<and> Misses (RecordHit (RecordMiss (NewMetrics True))) = 1
   \<and> HitRatio (RecordHit (RecordMiss (NewMetrics True))) = Finite 0.5
   \<and> Requests (metrics after_two_Gets) = 2
   \<and> Hits (metrics after_two_Gets) = 1
   \<and> Misses (metrics after_two_Gets) = 1
   \<and> HitRatio (metrics after_two_Gets) = Finite 0.5
   \<and> record_calls (NewMetrics False) cs = NewMetrics False
   \<and> Hits (record_calls (NewMetrics False) cs) = 0
   \<and> Misses (record_calls (NewMetrics False) cs) = 0
   \<and> Evictions (record_calls (NewMetrics False) cs) = 0
   \<and> Requests (record_calls (NewMetrics False) cs) = 0
   \<and> totalLatency (record_calls (NewMetrics False) cs) = 0
   \<and> countLatency (record_calls (NewMetrics False) cs) = 0
   \<and> minLatency (record_calls (NewMetrics False) cs) = 0
   \<and> maxLatency (record_calls (NewMetrics False) cs) = 0
   \<and> lastLatency (record_calls (NewMetrics False) cs) = 0
   \<and> HitRatio (record_calls (NewMetrics False) cs) = Finite 0
   \<and> AvgLatency (record_calls (NewMetrics False) cs) = Finite 0"
proof -
  have off: "record_calls (NewMetrics False) cs = NewMetrics False"
    by (rule record_calls_disabled) (simp add: NewMetrics_def)
  have on: "RecordHit (RecordMiss (NewMetrics True)) =
      (NewMetrics True)\<lparr>Hits := 1, Misses := 1, Requests := 2\<rparr>"
    by (simp add: RecordHit_def RecordMiss_def NewMetrics_def)
  have ratio: "HitRatio ((NewMetrics True)\<lparr>Hits := 1, Misses := 1, Requests := 2\<rparr>) = Finite 0.5"
    by (simp add: HitRatio_def NewMetrics_def float64_div_def float64_of_uint64_def)
  show ?thesis
    unfolding off on two_Gets_metrics
    using two_Gets_counters
    by (simp add: ratio) (simp add: NewMetrics_def HitRatio_def AvgLatency_def)
qed



text \<open>
  Claim C3 says that a failing computation leaves the backend's state for the key
  unchanged. It fails when the key holds an entry that has expired: the lookup of
  \<open>Get\<close> removes that entry before the computation runs. Here the backend holds an entry
  for \<open>''k''\<close> that expired at time 5, \<open>Get\<close> is called at time 100 with a computation
  that fails, and afterwards the backend has no entry for \<open>''k''\<close>.
\<close>

theorem error_path_purges_stale_entry:
  "failing 0 = ((Some 13, Some ''boom''), 1)
   \<and> fst (Memoizer_Get first_clock stale_memoizer ''k'' failing 0) = Got None (Some ''boom'')
   \<and> entries (backend stale_memoizer) ''k'' = Some \<lparr>Value = Some 1, expiry = 5, version = 1\<rparr>
   \<and> entries (backend (fst (snd (Memoizer_Get first_clock stale_memoizer ''k'' failing 0)))) ''k'' = None"
  by (simp add: Memoizer_Get_def Memory_Get_def IsExpired_def Do_def Get_compute_def
      stale_memoizer_def empty_memoizer_def first_clock_def failing_def NewSingleFlight_def)

text \<open>
  Claim C3, amended. When the lookup of \<open>Get\<close> misses, no call is in flight for the key
  and the computation returns an error, \<open>Get\<close> returns \<open>nil\<close> and that same error
  (dropping the value the computation returned with it). It does not call \<open>Set\<close>: the
  backend is left as the lookup left it. The key has no entry afterwards and every later
  lookup of it misses, every other key is as before, and when the key had no entry
  before the call the backend is unchanged; the one change possible is the removal, by
  the lookup, of an entry for the key that had expired.
\<close>

theorem compute_error_not_cached:
  assumes miss: "snd (fst (Memory_Get (at_lookup clk) (backend m) key)) = False"
    and idle: "sf_m (group m) key = None"
    and fails: "fn w = ((r, Some er), w1)"
    and get: "Memoizer_Get clk m key fn w = (res, m1, w')"
  shows "res = Got None (Some er)
    \<and> w' = w1
    \<and> backend m1 = snd (Memory_Get (at_lookup clk) (backend m) key)
    \<and> entries (backend m1) key = None
    \<and> (\<forall>k. k \<noteq> key \<longrightarrow> entries (backend m1) k = entries (backend m) k)
    \<and> (entries (backend m) key = None \<longrightarrow> backend m1 = backend m)
    \<and> (\<forall>t. fst (Memory_Get t (backend m1) key) = (None, False))"
proof -
  obtain v0 ok b1 where g: "Memory_Get (at_lookup clk) (backend m) key = ((v0, ok), b1)"
    by (metis surj_pair)
  with miss have nok: "\<not> ok" by simp
  from Memory_Get_cases [OF g] nok
  have b1: "entries b1 key = None" "b1 = (backend m)\<lparr>entries := (entries (backend m))(key := None)\<rparr>"
    by simp_all
  from Memoizer_Get_fails [of clk m key fn w r er w1] miss idle fails get g
  have r: "res = Got None (Some er)" "w' = w1" "backend m1 = b1"
    by auto
  have same: "entries (backend m) key = None \<longrightarrow> b1 = backend m"
    using g by (auto simp: Memory_Get_absent)
  show ?thesis
    using r b1(1) same g
    by (simp add: Memory_Get_absent) (simp add: b1(2))
qed

theorem compute_error_not_cached_witness:
  "snd (fst (Memory_Get (at_lookup first_clock) (backend stale_memoizer) ''k'')) = False
   \<and> sf_m (group stale_memoizer) ''k'' = None
   \<and> failing 0 = ((Some 13, Some ''boom''), 1)
   \<and> fst (Memoizer_Get first_clock stale_memoizer ''k'' failing 0) = Got None (Some ''boom'')
   \<and> snd (snd (Memoizer_Get first_clock stale_memoizer ''k'' failing 0)) = 1
   \<and> entries (backend (fst (snd (Memoizer_Get first_clock stale_memoizer ''k'' failing 0)))) ''k'' = None"
proof -
  have h1: "snd (fst (Memory_Get (at_lookup first_clock) (backend stale_memoizer) ''k'')) = False"
    by (simp add: Memory_Get_def IsExpired_def stale_memoizer_def first_clock_def)
  have h2: "sf_m (group stale_memoizer) ''k'' = None"
    by (simp add: stale_memoizer_def empty_memoizer_def NewSingleFlight_def)
  have h3: "failing 0 = ((Some 13, Some ''boom''), 1)"
    by (simp add: failing_def)
  have h4: "Memoizer_Get first_clock stale_memoizer ''k'' failing 0 =
      (fst (Memoizer_Get first_clock stale_memoizer ''k'' failing 0),
       fst (snd (Memoizer_Get first_clock stale_memoizer ''k'' failing 0)),
       snd (snd (Memoizer_Get first_clock stale_memoizer ''k'' failing 0)))"
    by simp
  note r = compute_error_not_cached [OF h1 h2 h3 h4]
  from r have "fst (Memoizer_Get first_clock stale_memoizer ''k'' failing 0) = Got None (Some ''boom'')"
    by (rule conjunct1)
  moreover from r have "snd (snd (Memoizer_Get first_clock stale_memoizer ''k'' failing 0)) = 1"
    by blast
  moreover from r
  have "entries (backend (fst (snd (Memoizer_Get first_clock stale_memoizer ''k'' failing 0)))) ''k'' = None"
    by blast
  ultimately show ?thesis
    using h1 h2 h3 by blast
qed

section \<open>Concurrent callers\<close>

















lemma unpublished_owner: "unpublished p \<Longrightarrow> owner_pc p"
  by (cases p) simp_all





























end
